theory Spec2Isabelle
  imports Main "HOL-Library.Word"
begin

section \<open>Payload documents\<close>

text \<open>
  The provider builds every request body as a Go \<open>map[string]interface{}\<close> and hands it
  to \<open>json.Marshal\<close>. The values that occur are strings, Go \<open>int\<close>s, booleans, slices
  and nested maps. A Go \<open>int\<close> is a 64-bit two's-complement integer on the targets the
  provider is built for; \<open>+\<close> and \<open>*\<close> wrap around, and \<open>>\<close> compares signed values.

  A map is modelled as an association list with at most one entry per key. \<open>assign m k v\<close>
  is the statement \<open>m[k] = v\<close>, \<open>map_of m k\<close> is the lookup, and \<open>length m\<close> is
  \<open>len(m)\<close>. The encoding to bytes by \<open>json.Marshal\<close> (standard library, keys sorted)
  is not part of the model: the functions below return the map that is marshalled.
\<close>

type_synonym go_int = "64 word"

datatype json =
    JString string
  | JInt go_int
  | JBool bool
  | JArray "json list"
  | JObject "(string \<times> json) list"

type_synonym obj = "(string \<times> json) list"

fun assign :: "obj \<Rightarrow> string \<Rightarrow> json \<Rightarrow> obj" where
  "assign [] k v = [(k, v)]"
| "assign ((k', v') # m) k v =
     (if k' = k then (k, v) # m else (k', v') # assign m k v)"

section \<open>Configuration\<close>

text \<open>
  The functions read a \<open>schema.ResourceData\<close> whose shape the resource schema fixes
  (field types, required fields and defaults are enforced by the schema layer before the
  functions run), so each block of the schema is a record with the schema's field types.
  The field names are the schema keys, prefixed by the block name where two blocks share a
  key.

  An optional top-level key is an option: \<open>Some v\<close> when the configuration gives the
  key the value \<open>v\<close>, \<open>None\<close> when it leaves the key out. The keys \<open>time_range\<close>,
  \<open>start_time\<close> and \<open>end_time\<close> are read with \<open>d.GetOk\<close>, modelled below by
  \<open>GetOk_string\<close> and \<open>GetOk_int\<close>. The key \<open>charts_resolution\<close> is checked by
  \<open>validateChartsResolution\<close>, which admits no empty word, so \<open>d.GetOk\<close> reports
  every value it can hold and the field is what \<open>d.GetOk\<close> returns.

  Inside a block, the result of a lookup \<open>m[key]\<close> with the comma-ok form and of a
  comma-ok type assertion is an option: \<open>Some v\<close> when \<open>ok\<close> holds. A
  \<open>*schema.Set\<close> is given by the list that its \<open>List()\<close> returns.
\<close>

record chart_entry =
  chart_id :: string
  chart_row :: go_int
  chart_column :: go_int
  chart_width :: go_int
  chart_height :: go_int

record grid_group =
  grid_chart_ids :: "string list"
  grid_start_row :: go_int
  grid_start_column :: go_int
  grid_width :: go_int
  grid_height :: go_int

record column_group =
  column_chart_ids :: "string list"
  column_column :: go_int
  column_start_row :: go_int
  column_width :: go_int
  column_height :: go_int

record variable_def =
  variable_property :: string
  variable_alias :: string
  variable_description :: string
  variable_values :: "string list option"
  variable_value_required :: bool
  variable_values_suggested :: "string list option"
  variable_restricted_suggestions :: bool
  variable_replace_only :: bool
  variable_apply_if_exist :: bool

record filter_def =
  filter_property :: string
  filter_negated :: bool
  filter_values :: "string list"
  filter_apply_if_exist :: bool

record source_def =
  source_property :: string
  source_negated :: bool
  source_values :: "string list"

record overlay_def =
  overlay_line :: "bool option"
  overlay_label :: "string option"
  overlay_color :: "string option"
  overlay_signal :: string
  overlay_type :: string
  overlay_source :: "source_def list option"

record dashboard =
  name :: string
  description :: string
  dashboard_group :: string
  charts_resolution :: "string option"
  time_range :: "string option"
  start_time :: "go_int option"
  end_time :: "go_int option"
  chart :: "chart_entry list"
  grid :: "grid_group list"
  column :: "column_group list"
  variable :: "variable_def list"
  filter_defs :: "filter_def list"
  event_overlay :: "overlay_def list"
  selected_event_overlay :: "overlay_def list"

record integration =
  integration_name :: string
  integration_enabled :: bool
  integration_type :: string
  api_key :: string
  webhook_url :: string

text \<open>A dashboard with no optional field set and no block declared.\<close>

definition blank_dashboard :: dashboard where
  "blank_dashboard =
     \<lparr>name = ''d'', description = [], dashboard_group = ''g'',
      charts_resolution = None, time_range = None, start_time = None, end_time = None,
      chart = [], grid = [], column = [], variable = [], filter_defs = [],
      event_overlay = [], selected_event_overlay = []\<rparr>"

section \<open>Chart layout\<close>

definition getDashboardCharts :: "dashboard \<Rightarrow> obj list" where
  "getDashboardCharts d =
     map (\<lambda>c.
       (let item = [];
            item = assign item ''chartId'' (JString (chart_id c));
            item = assign item ''row'' (JInt (chart_row c));
            item = assign item ''column'' (JInt (chart_column c));
            item = assign item ''height'' (JInt (chart_height c));
            item = assign item ''width'' (JInt (chart_width c))
        in item)) (chart d)"

text \<open>
  The inner loop of \<open>getDashboardColumns\<close>: the running row and the slice \<open>charts\<close>
  that the loop appends to are the loop state.
\<close>

fun column_loop :: "column_group \<Rightarrow> go_int \<Rightarrow> string list \<Rightarrow> obj list \<Rightarrow> obj list" where
  "column_loop c current_row [] charts = charts"
| "column_loop c current_row (cid # rest) charts =
     (let item = [];
          item = assign item ''chartId'' (JString cid);
          item = assign item ''height'' (JInt (column_height c));
          item = assign item ''width'' (JInt (column_width c));
          item = assign item ''column'' (JInt (column_column c));
          item = assign item ''row'' (JInt current_row)
      in column_loop c (current_row + 1) rest (charts @ [item]))"

definition getDashboardColumns :: "dashboard \<Rightarrow> obj list" where
  "getDashboardColumns d =
     foldl (\<lambda>charts c. column_loop c (column_start_row c) (column_chart_ids c) charts)
       [] (column d)"

text \<open>
  The inner loop of \<open>getDashboardGrids\<close>: the state is the running row, the running
  column and the slice \<open>charts\<close>.
\<close>

fun grid_loop ::
  "grid_group \<Rightarrow> go_int \<Rightarrow> go_int \<Rightarrow> string list \<Rightarrow> obj list \<Rightarrow> obj list" where
  "grid_loop g current_row current_column [] charts = charts"
| "grid_loop g current_row current_column (cid # rest) charts =
     (let item = [];
          item = assign item ''chartId'' (JString cid);
          item = assign item ''height'' (JInt (grid_height g));
          item = assign item ''width'' (JInt (grid_width g));
          wrap = (12 <s current_column + grid_width g);
          current_row = (if wrap then current_row + 1 else current_row);
          current_column = (if wrap then grid_start_column g else current_column);
          item = assign item ''row'' (JInt current_row);
          item = assign item ''column'' (JInt current_column)
      in grid_loop g current_row (current_column + grid_width g) rest (charts @ [item]))"

definition getDashboardGrids :: "dashboard \<Rightarrow> obj list" where
  "getDashboardGrids d =
     foldl (\<lambda>charts g.
         grid_loop g (grid_start_row g) (grid_start_column g) (grid_chart_ids g) charts)
       [] (grid d)"

text \<open>The placements that one group contributes: its loop run on an empty slice.\<close>

definition column_placements :: "column_group \<Rightarrow> obj list" where
  "column_placements c = column_loop c (column_start_row c) (column_chart_ids c) []"

definition grid_placements :: "grid_group \<Rightarrow> obj list" where
  "grid_placements g =
     grid_loop g (grid_start_row g) (grid_start_column g) (grid_chart_ids g) []"

text \<open>The item maps of the two loops, with the keys in the order of assignment.\<close>

definition column_item :: "column_group \<Rightarrow> string \<Rightarrow> go_int \<Rightarrow> obj" where
  "column_item c cid r =
     [(''chartId'', JString cid), (''height'', JInt (column_height c)),
      (''width'', JInt (column_width c)), (''column'', JInt (column_column c)),
      (''row'', JInt r)]"

definition grid_item :: "grid_group \<Rightarrow> string \<Rightarrow> go_int \<Rightarrow> go_int \<Rightarrow> obj" where
  "grid_item g cid r c =
     [(''chartId'', JString cid), (''height'', JInt (grid_height g)),
      (''width'', JInt (grid_width g)), (''row'', JInt r), (''column'', JInt c)]"

text \<open>The coordinates that a placement carries under the keys \<open>row\<close> and \<open>column\<close>.\<close>

definition placement_row :: "obj \<Rightarrow> go_int option" where
  "placement_row p = (case map_of p ''row'' of Some (JInt r) \<Rightarrow> Some r | _ \<Rightarrow> None)"

definition placement_column :: "obj \<Rightarrow> go_int option" where
  "placement_column p = (case map_of p ''column'' of Some (JInt c) \<Rightarrow> Some c | _ \<Rightarrow> None)"

text \<open>
  The schema describes \<open>row\<close> as the topmost row of a chart and \<open>height\<close> as the
  number of rows the chart takes up: a placement covers row \<open>x\<close> when the offset of
  \<open>x\<close> from its \<open>row\<close> lies in \<open>[0, height)\<close>.
\<close>

definition occupies :: "obj \<Rightarrow> go_int \<Rightarrow> bool" where
  "occupies p x =
     (case (map_of p ''row'', map_of p ''height'') of
        (Some (JInt r), Some (JInt h)) \<Rightarrow> 0 \<le>s x - r \<and> x - r <s h
      | _ \<Rightarrow> False)"

section \<open>Time window\<close>

text \<open>
  \<open>d.GetOk\<close> of the schema library returns the value of a key and whether the key is
  set to a value other than the zero value of its type: a key that the configuration
  leaves out, an empty string and the integer 0 are all reported as not set.
\<close>

definition GetOk_string :: "string option \<Rightarrow> string option" where
  "GetOk_string v =
     (case v of None \<Rightarrow> None | Some s \<Rightarrow> if s = [] then None else Some s)"

definition GetOk_int :: "go_int option \<Rightarrow> go_int option" where
  "GetOk_int v =
     (case v of None \<Rightarrow> None | Some n \<Rightarrow> if n = 0 then None else Some n)"

text \<open>
  \<open>getDashboardTime\<close> returns the map it filled, or \<open>nil\<close> (here \<open>None\<close>) when
  the map stayed empty; \<open>len\<close> of a \<open>nil\<close> map is 0.
\<close>

definition getDashboardTime :: "dashboard \<Rightarrow> obj option" where
  "getDashboardTime d =
     (let timeMap = [];
          timeMap =
            (case GetOk_string (time_range d) of
               Some val \<Rightarrow>
                 (let timeMap = assign timeMap ''start'' (JString val);
                      timeMap = assign timeMap ''end'' (JString ''Now'')
                  in timeMap)
             | None \<Rightarrow>
                 (let timeMap =
                        (case GetOk_int (start_time d) of
                           Some val \<Rightarrow> assign timeMap ''start'' (JInt (val * 1000))
                         | None \<Rightarrow> timeMap);
                      timeMap =
                        (case GetOk_int (end_time d) of
                           Some val \<Rightarrow> assign timeMap ''end'' (JInt (val * 1000))
                         | None \<Rightarrow> timeMap)
                  in timeMap))
      in if length timeMap > 0 then Some timeMap else None)"

section \<open>Field normalizers\<close>

definition variable_item :: "variable_def \<Rightarrow> obj" where
  "variable_item v =
     (let item = [];
          item = assign item ''property'' (JString (variable_property v));
          item = assign item ''description'' (JString (variable_description v));
          item = assign item ''alias'' (JString (variable_alias v));
          item =
            (case variable_values v of
               Some values_list \<Rightarrow>
                 (if length values_list \<noteq> 0
                  then assign item ''value'' (JArray (map JString values_list))
                  else assign item ''value'' (JString []))
             | None \<Rightarrow> assign item ''value'' (JString []));
          item = assign item ''required'' (JBool (variable_value_required v));
          item =
            (case variable_values_suggested v of
               Some values_list \<Rightarrow>
                 (if length values_list \<noteq> 0
                  then assign item ''preferredSuggestions'' (JArray (map JString values_list))
                  else item)
             | None \<Rightarrow> item);
          item = assign item ''restricted'' (JBool (variable_restricted_suggestions v));
          item = assign item ''applyIfExists'' (JBool (variable_apply_if_exist v));
          item = assign item ''replaceOnly'' (JBool (variable_replace_only v))
      in item)"

definition getDashboardVariables :: "dashboard \<Rightarrow> obj list" where
  "getDashboardVariables d = map variable_item (variable d)"

definition source_item :: "source_def \<Rightarrow> obj" where
  "source_item src =
     (let s = [];
          s = assign s ''property'' (JString (source_property src));
          s = assign s ''value'' (JArray (map JString (source_values src)));
          s = assign s ''NOT'' (JBool (source_negated src))
      in s)"

text \<open>
  \<open>PaletteColors\<close> is a package-level table \<open>map[string]int\<close> declared in another file
  of the package; the functions that read it take it as a parameter.
\<close>

definition overlay_item :: "(string \<Rightarrow> go_int option) \<Rightarrow> overlay_def \<Rightarrow> obj" where
  "overlay_item PaletteColors overlay =
     (let item = [];
          item = assign item ''eventSignal''
                   (JObject [(''eventSearchText'', JString (overlay_signal overlay)),
                             (''eventType'', JString (overlay_type overlay))]);
          item =
            (case overlay_line overlay of
               Some val \<Rightarrow> assign item ''eventLine'' (JBool val)
             | None \<Rightarrow> item);
          item =
            (case overlay_label overlay of
               Some val \<Rightarrow> assign item ''label'' (JString val)
             | None \<Rightarrow> item);
          item =
            (case overlay_color overlay of
               Some val \<Rightarrow>
                 (case PaletteColors val of
                    Some elem \<Rightarrow> assign item ''eventColorIndex'' (JInt elem)
                  | None \<Rightarrow> item)
             | None \<Rightarrow> item);
          item =
            (case overlay_source overlay of
               Some sources \<Rightarrow>
                 assign item ''sources'' (JArray (map (\<lambda>src. JObject (source_item src)) sources))
             | None \<Rightarrow> item)
      in item)"

definition getDashboardEventOverlays ::
  "(string \<Rightarrow> go_int option) \<Rightarrow> overlay_def list \<Rightarrow> obj list" where
  "getDashboardEventOverlays PaletteColors overlays =
     map (overlay_item PaletteColors) overlays"

definition filter_item :: "filter_def \<Rightarrow> obj" where
  "filter_item f =
     (let item = [];
          item = assign item ''property'' (JString (filter_property f));
          item = assign item ''NOT'' (JBool (filter_negated f));
          item = assign item ''applyIfExists'' (JBool (filter_apply_if_exist f));
          item = assign item ''value'' (JArray (map JString (filter_values f)))
      in item)"

definition getDashboardFilters :: "dashboard \<Rightarrow> obj list" where
  "getDashboardFilters d = map filter_item (filter_defs d)"

section \<open>Payload assembly\<close>

text \<open>
  \<open>ToUpper\<close> stands for \<open>strings.ToUpper\<close> of the Go standard library and is a
  parameter. \<open>ascii_upper\<close> is its value on ASCII text (a letter \<open>a\<close> to \<open>z\<close>
  loses bit 5), used where a concrete payload is evaluated.
\<close>

definition ascii_upper :: "string \<Rightarrow> string" where
  "ascii_upper s =
     map (\<lambda>c. case c of
              Char b0 b1 b2 b3 b4 b5 b6 b7 \<Rightarrow>
                if 97 \<le> (of_char c :: nat) \<and> (of_char c :: nat) \<le> 122
                then Char b0 b1 b2 b3 b4 False b6 b7 else c) s"

text \<open>
  The local map \<open>all_filters\<close> of \<open>getPayloadDashboard\<close> after its three
  conditional assignments.
\<close>

definition dashboard_all_filters :: "dashboard \<Rightarrow> obj" where
  "dashboard_all_filters d =
     (let all_filters = [];
          all_filters =
            (let filters = getDashboardFilters d
             in if length filters > 0
                then assign all_filters ''sources'' (JArray (map JObject filters))
                else all_filters);
          all_filters =
            (let variables = getDashboardVariables d
             in if length variables > 0
                then assign all_filters ''variables'' (JArray (map JObject variables))
                else all_filters);
          all_filters =
            (case getDashboardTime d of
               None \<Rightarrow> all_filters
             | Some time \<Rightarrow>
                 if length time > 0
                 then assign all_filters ''time'' (JObject time)
                 else all_filters)
      in all_filters)"

definition getPayloadDashboard ::
  "(string \<Rightarrow> go_int option) \<Rightarrow> (string \<Rightarrow> string) \<Rightarrow> dashboard \<Rightarrow> obj" where
  "getPayloadDashboard PaletteColors ToUpper d =
     (let payload = [(''name'', JString (name d)),
                     (''description'', JString (description d)),
                     (''groupId'', JString (dashboard_group d))];
          all_filters = dashboard_all_filters d;
          payload =
            (if length all_filters > 0
             then assign payload ''filters'' (JObject all_filters)
             else payload);
          payload = assign payload ''eventOverlays''
                      (JArray (map JObject
                         (getDashboardEventOverlays PaletteColors (event_overlay d))));
          payload = assign payload ''selectedEventOverlays''
                      (JArray (map JObject
                         (getDashboardEventOverlays PaletteColors (selected_event_overlay d))));
          charts = getDashboardCharts d;
          column_charts = getDashboardColumns d;
          dashboard_charts = charts @ column_charts;
          grid_charts = getDashboardGrids d;
          dashboard_charts = dashboard_charts @ grid_charts;
          payload =
            (if length dashboard_charts > 0
             then assign payload ''charts'' (JArray (map JObject dashboard_charts))
             else payload);
          payload =
            (case charts_resolution d of
               Some chartsResolution \<Rightarrow>
                 assign payload ''chartDensity'' (JString (ToUpper chartsResolution))
             | None \<Rightarrow> payload)
      in payload)"

text \<open>The \<open>time\<close> sub-key of a payload: the entry \<open>time\<close> of its \<open>filters\<close> object.\<close>

definition payload_time :: "obj \<Rightarrow> json option" where
  "payload_time p =
     (case map_of p ''filters'' of Some (JObject f) \<Rightarrow> map_of f ''time'' | _ \<Rightarrow> None)"

text \<open>
  The \<open>filters\<close> object as the specification describes it: the sub-keys \<open>sources\<close>,
  \<open>variables\<close> and \<open>time\<close>, each present exactly when its collection is not empty.
\<close>

definition filters_document :: "dashboard \<Rightarrow> obj" where
  "filters_document d =
     (if filter_defs d = [] then []
      else [(''sources'', JArray (map JObject (getDashboardFilters d)))]) @
     (if variable d = [] then []
      else [(''variables'', JArray (map JObject (getDashboardVariables d)))]) @
     (case getDashboardTime d of
        None \<Rightarrow> []
      | Some t \<Rightarrow> [(''time'', JObject t)])"

section \<open>Enumerated validators\<close>

text \<open>
  A validator returns the pair \<open>(we, errors)\<close> of warnings and errors; an error made
  by \<open>fmt.Errorf\<close> is given by its message. The loop over \<open>allowedWords\<close> returns
  from the validator at the first word equal to the value.
\<close>

fun strings_Join :: "string list \<Rightarrow> string \<Rightarrow> string" where
  "strings_Join [] sep = []"
| "strings_Join [w] sep = w"
| "strings_Join (w # ws) sep = w @ sep @ strings_Join ws sep"

fun validate_words :: "string \<Rightarrow> string list \<Rightarrow> string list \<Rightarrow> string list \<times> string list" where
  "validate_words val allowedWords [] =
     ([], [val @ '' not allowed; must be one of: '' @ strings_Join allowedWords '', ''])"
| "validate_words val allowedWords (word # rest) =
     (if val = word then ([], []) else validate_words val allowedWords rest)"

definition validateChartsResolution :: "string \<Rightarrow> string \<Rightarrow> string list \<times> string list" where
  "validateChartsResolution v k =
     (let allowedWords = [''default'', ''low'', ''high'', ''highest'']
      in validate_words v allowedWords allowedWords)"

definition validateEventOverlayType :: "string \<Rightarrow> string \<Rightarrow> string list \<times> string list" where
  "validateEventOverlayType v k =
     (let allowedWords = [''eventTimeSeries'', ''detectorEvents'']
      in validate_words v allowedWords allowedWords)"

definition validateIntegrationType :: "string \<Rightarrow> string \<Rightarrow> string list \<times> string list" where
  "validateIntegrationType v k =
     (let allowedWords = [''PagerDuty'', ''Slack'']
      in validate_words v allowedWords allowedWords)"

section \<open>Integration payload\<close>

definition getPayloadIntegration :: "integration \<Rightarrow> obj" where
  "getPayloadIntegration d =
     (let integrationType = integration_type d;
          payload = [(''name'', JString (integration_name d)),
                     (''enabled'', JBool (integration_enabled d)),
                     (''type'', JString integrationType)];
          payload =
            (if integrationType = ''PagerDuty''
             then assign payload ''apiKey'' (JString (api_key d))
             else if integrationType = ''Slack''
             then assign payload ''webhookUrl'' (JString (webhook_url d))
             else payload)
      in payload)"

section \<open>Maps\<close>

lemma map_of_assign: "map_of (assign m k v) = (map_of m)(k \<mapsto> v)"
  by (induction m k v rule: assign.induct) auto

section \<open>The layout loops\<close>

text \<open>
  Appending to the slice commutes with the loops, so each group contributes its own
  placements and the resolver returns their concatenation in group order.
\<close>

lemma column_loop_append:
  "column_loop c r ids charts = charts @ column_loop c r ids []"
proof (induction ids arbitrary: r charts)
  case Nil
  show ?case by simp
next
  case (Cons cid rest)
  show ?case
    using Cons.IH [of "r + 1" "charts @ [column_item c cid r]"]
          Cons.IH [of "r + 1" "[column_item c cid r]"]
    by (simp add: column_item_def)
qed

lemma column_loop_Cons:
  "column_loop c r (cid # rest) [] = column_item c cid r # column_loop c (r + 1) rest []"
  using column_loop_append [of c "r + 1" rest "[column_item c cid r]"]
  by (simp add: column_item_def)

declare column_loop.simps(2) [simp del]

lemma length_column_loop: "length (column_loop c r ids []) = length ids"
  by (induction ids arbitrary: r) (simp_all add: column_loop_Cons)

lemma column_loop_nth:
  "i < length ids \<Longrightarrow>
   column_loop c r ids [] ! i = column_item c (ids ! i) (r + of_nat i)"
proof (induction ids arbitrary: r i)
  case Nil
  then show ?case by simp
next
  case (Cons cid rest)
  show ?case
  proof (cases i)
    case 0
    then show ?thesis by (simp add: column_loop_Cons)
  next
    case (Suc j)
    with Cons.prems have "j < length rest" by simp
    from Cons.IH [OF this, of "r + 1"] Suc show ?thesis
      by (simp add: column_loop_Cons ac_simps)
  qed
qed

lemma getDashboardColumns_concat:
  "getDashboardColumns d = concat (map column_placements (column d))"
proof -
  have "foldl (\<lambda>charts c. column_loop c (column_start_row c) (column_chart_ids c) charts) acc cs
        = acc @ concat (map column_placements cs)" for acc cs
  proof (induction cs arbitrary: acc)
    case Nil
    show ?case by simp
  next
    case (Cons c cs)
    show ?case
      using column_loop_append [of c "column_start_row c" "column_chart_ids c" acc]
      by (simp add: Cons.IH column_placements_def)
  qed
  from this [of "[]" "column d"] show ?thesis
    by (simp add: getDashboardColumns_def)
qed

lemma grid_loop_append:
  "grid_loop g r c ids charts = charts @ grid_loop g r c ids []"
proof (induction ids arbitrary: r c charts)
  case Nil
  show ?case by simp
next
  case (Cons cid rest)
  show ?case
    by (simp add: Let_def Cons.IH [of _ _ "charts @ _"] Cons.IH [of _ _ "[_]"])
qed

lemma grid_loop_Cons:
  "grid_loop g r c (cid # rest) [] =
     (if 12 <s c + grid_width g
      then grid_item g cid (r + 1) (grid_start_column g)
             # grid_loop g (r + 1) (grid_start_column g + grid_width g) rest []
      else grid_item g cid r c # grid_loop g r (c + grid_width g) rest [])"
  by (simp add: Let_def grid_item_def grid_loop_append [of _ _ _ _ "[_]"])

declare grid_loop.simps(2) [simp del]

lemma length_grid_loop: "length (grid_loop g r c ids []) = length ids"
  by (induction ids arbitrary: r c) (simp_all add: grid_loop_Cons)

lemma getDashboardGrids_concat:
  "getDashboardGrids d = concat (map grid_placements (grid d))"
proof -
  have "foldl (\<lambda>charts g.
           grid_loop g (grid_start_row g) (grid_start_column g) (grid_chart_ids g) charts) acc gs
        = acc @ concat (map grid_placements gs)" for acc gs
  proof (induction gs arbitrary: acc)
    case Nil
    show ?case by simp
  next
    case (Cons g gs)
    show ?case
      using grid_loop_append
              [of g "grid_start_row g" "grid_start_column g" "grid_chart_ids g" acc]
      by (simp add: Cons.IH grid_placements_def)
  qed
  from this [of "[]" "grid d"] show ?thesis
    by (simp add: getDashboardGrids_def)
qed


lemma grid_loop_first:
  "grid_loop g r c (cid # rest) [] ! 0 =
     (if 12 <s c + grid_width g then grid_item g cid (r + 1) (grid_start_column g)
      else grid_item g cid r c)"
  by (simp add: grid_loop_Cons)

lemma grid_loop_step:
  "Suc i < length ids \<Longrightarrow>
   \<exists>ri ci. grid_loop g r c ids [] ! i = grid_item g (ids ! i) ri ci \<and>
     grid_loop g r c ids [] ! Suc i =
       (if 12 <s ci + grid_width g + grid_width g
        then grid_item g (ids ! Suc i) (ri + 1) (grid_start_column g)
        else grid_item g (ids ! Suc i) ri (ci + grid_width g))"
proof (induction ids arbitrary: r c i)
  case Nil
  then show ?case by simp
next
  case (Cons cid rest)
  show ?case
  proof (cases i)
    case 0
    with Cons.prems obtain cid' rest' where rest: "rest = cid' # rest'"
      by (cases rest) auto
    show ?thesis
    proof (cases "12 <s c + grid_width g")
      case True
      show ?thesis
        unfolding 0 rest
        by (rule exI [of _ "r + 1"], rule exI [of _ "grid_start_column g"])
           (simp add: grid_loop_Cons True)
    next
      case False
      show ?thesis
        unfolding 0 rest
        by (rule exI [of _ r], rule exI [of _ c])
           (simp add: grid_loop_Cons False)
    qed
  next
    case (Suc j)
    with Cons.prems have j: "Suc j < length rest" by simp
    obtain x r' c' where eq: "grid_loop g r c (cid # rest) [] = x # grid_loop g r' c' rest []"
      by (cases "12 <s c + grid_width g") (simp_all add: grid_loop_Cons)
    show ?thesis
      using Cons.IH [OF j, of r' c'] unfolding Suc eq nth_Cons_Suc .
  qed
qed

lemma grid_loop_fits:
  "grid_start_column g + grid_width g \<le>s 12 \<Longrightarrow> p \<in> set (grid_loop g r c ids []) \<Longrightarrow>
   \<exists>cid rp cp. p = grid_item g cid rp cp \<and> cp + grid_width g \<le>s 12"
proof (induction ids arbitrary: r c)
  case Nil
  then show ?case by simp
next
  case (Cons cid rest)
  show ?case
  proof (cases "12 <s c + grid_width g")
    case True
    with Cons.prems(2)
    have "p = grid_item g cid (r + 1) (grid_start_column g) \<or>
          p \<in> set (grid_loop g (r + 1) (grid_start_column g + grid_width g) rest [])"
      by (simp add: grid_loop_Cons)
    then show ?thesis
      using Cons.IH [OF Cons.prems(1)] Cons.prems(1) by blast
  next
    case False
    then have fit: "c + grid_width g \<le>s 12"
      by (simp add: signed.not_less)
    from False Cons.prems(2)
    have "p = grid_item g cid r c \<or> p \<in> set (grid_loop g r (c + grid_width g) rest [])"
      by (simp add: grid_loop_Cons)
    then show ?thesis
      using Cons.IH [OF Cons.prems(1)] fit by blast
  qed
qed

lemma placement_column_item [simp]:
  "placement_row (column_item c cid r) = Some r"
  "placement_column (column_item c cid r) = Some (column_column c)"
  by (simp_all add: placement_row_def placement_column_def column_item_def)

lemma placement_grid_item [simp]:
  "placement_row (grid_item g cid r c) = Some r"
  "placement_column (grid_item g cid r c) = Some c"
  by (simp_all add: placement_row_def placement_column_def grid_item_def)

lemma occupies_grid_item:
  "occupies (grid_item g cid r c) x \<longleftrightarrow> 0 \<le>s x - r \<and> x - r <s grid_height g"
  by (simp add: occupies_def grid_item_def)

section \<open>Column groups\<close>

text \<open>
  Claim C1, as amended. The resolver returns the placements of the column groups in group
  order. A column group contributes one placement per chart id, in list order, each with
  the group's width and height and at the group's fixed column. The row of the first
  placement is \<open>start_row\<close>, and the row of each further placement is the row of the
  one before it plus 1: the loop steps the row by \<open>current_row++\<close>, whatever the
  shared height is. Rows are Go \<open>int\<close>s, so \<open>+\<close> is the wrapping addition.
\<close>

theorem column_rows_step_by_one:
  "getDashboardColumns d = concat (map column_placements (column d)) \<and>
   length (column_placements c) = length (column_chart_ids c) \<and>
   (\<forall>i < length (column_chart_ids c).
      map_of (column_placements c ! i) ''chartId'' = Some (JString (column_chart_ids c ! i)) \<and>
      map_of (column_placements c ! i) ''width'' = Some (JInt (column_width c)) \<and>
      map_of (column_placements c ! i) ''height'' = Some (JInt (column_height c)) \<and>
      placement_column (column_placements c ! i) = Some (column_column c) \<and>
      placement_row (column_placements c ! i) = Some (column_start_row c + of_nat i)) \<and>
   (\<forall>i. Suc i < length (column_chart_ids c) \<longrightarrow>
      (\<exists>r. placement_row (column_placements c ! i) = Some r \<and>
           placement_row (column_placements c ! Suc i) = Some (r + 1)))"
proof (intro conjI allI impI)
  show "getDashboardColumns d = concat (map column_placements (column d))"
    by (rule getDashboardColumns_concat)
  show "length (column_placements c) = length (column_chart_ids c)"
    by (simp add: column_placements_def length_column_loop)
next
  fix i assume i: "i < length (column_chart_ids c)"
  have nth: "column_placements c ! i =
      column_item c (column_chart_ids c ! i) (column_start_row c + of_nat i)"
    unfolding column_placements_def by (rule column_loop_nth [OF i])
  show "map_of (column_placements c ! i) ''chartId'' = Some (JString (column_chart_ids c ! i))"
    by (simp add: nth column_item_def)
  show "map_of (column_placements c ! i) ''width'' = Some (JInt (column_width c))"
    by (simp add: nth column_item_def)
  show "map_of (column_placements c ! i) ''height'' = Some (JInt (column_height c))"
    by (simp add: nth column_item_def)
  show "placement_column (column_placements c ! i) = Some (column_column c)"
    by (simp add: nth)
  show "placement_row (column_placements c ! i) = Some (column_start_row c + of_nat i)"
    by (simp add: nth)
next
  fix i assume i: "Suc i < length (column_chart_ids c)"
  then have i': "i < length (column_chart_ids c)" by simp
  have "placement_row (column_placements c ! i) = Some (column_start_row c + of_nat i)"
    unfolding column_placements_def by (simp add: column_loop_nth [OF i'])
  moreover
  have "placement_row (column_placements c ! Suc i) = Some (column_start_row c + of_nat i + 1)"
    unfolding column_placements_def by (simp add: column_loop_nth [OF i] ac_simps)
  ultimately
  show "\<exists>r. placement_row (column_placements c ! i) = Some r \<and>
           placement_row (column_placements c ! Suc i) = Some (r + 1)"
    by blast
qed

text \<open>The same at a group of three charts with height 2, starting at row 5 in column 3.\<close>

theorem column_rows_step_by_one_witness:
  "Suc 1 < length (column_chart_ids
       \<lparr>column_chart_ids = [''a'', ''b'', ''c''], column_column = 3, column_start_row = 5,
        column_width = 4, column_height = 2\<rparr>) \<and>
   placement_row (column_placements
       \<lparr>column_chart_ids = [''a'', ''b'', ''c''], column_column = 3, column_start_row = 5,
        column_width = 4, column_height = 2\<rparr> ! 2) = Some 7 \<and>
   placement_column (column_placements
       \<lparr>column_chart_ids = [''a'', ''b'', ''c''], column_column = 3, column_start_row = 5,
        column_width = 4, column_height = 2\<rparr> ! 2) = Some 3"
  using column_rows_step_by_one [of blank_dashboard
       "\<lparr>column_chart_ids = [''a'', ''b'', ''c''], column_column = 3, column_start_row = 5,
        column_width = 4, column_height = 2\<rparr>"]
  by simp

text \<open>
  Claim C1 as the specification states it asks for rows that differ by the shared height.
  A column group of two charts with height 2 and \<open>start_row = 0\<close> places the second
  chart at row 1, not at row \<open>0 + 2\<close>.
\<close>

theorem column_rows_by_height_counterexample:
  "placement_row (getDashboardColumns (blank_dashboard
       \<lparr>column := [\<lparr>column_chart_ids = [''a'', ''b''], column_column = 0,
                    column_start_row = 0, column_width = 12, column_height = 2\<rparr>]\<rparr>) ! 0)
     = Some 0 \<and>
   placement_row (getDashboardColumns (blank_dashboard
       \<lparr>column := [\<lparr>column_chart_ids = [''a'', ''b''], column_column = 0,
                    column_start_row = 0, column_width = 12, column_height = 2\<rparr>]\<rparr>) ! 1)
     = Some 1 \<and>
   placement_row (getDashboardColumns (blank_dashboard
       \<lparr>column := [\<lparr>column_chart_ids = [''a'', ''b''], column_column = 0,
                    column_start_row = 0, column_width = 12, column_height = 2\<rparr>]\<rparr>) ! 1)
     \<noteq> Some (0 + 2)"
  by (simp add: getDashboardColumns_def blank_dashboard_def column_loop_Cons)

section \<open>Grid groups\<close>

lemma grid_placements_first:
  "grid_chart_ids g \<noteq> [] \<Longrightarrow>
   grid_placements g ! 0 =
     (if 12 <s grid_start_column g + grid_width g
      then grid_item g (grid_chart_ids g ! 0) (grid_start_row g + 1) (grid_start_column g)
      else grid_item g (grid_chart_ids g ! 0) (grid_start_row g) (grid_start_column g))"
  by (cases "grid_chart_ids g") (simp_all add: grid_placements_def grid_loop_first)

lemma grid_placements_step:
  assumes "Suc i < length (grid_chart_ids g)"
  shows "\<exists>r c. placement_row (grid_placements g ! i) = Some r \<and>
     placement_column (grid_placements g ! i) = Some c \<and>
     map_of (grid_placements g ! i) ''height'' = Some (JInt (grid_height g)) \<and>
     placement_row (grid_placements g ! Suc i) =
       Some (if 12 <s c + grid_width g + grid_width g then r + 1 else r) \<and>
     placement_column (grid_placements g ! Suc i) =
       Some (if 12 <s c + grid_width g + grid_width g then grid_start_column g
             else c + grid_width g)"
proof -
  from grid_loop_step [OF assms, of g "grid_start_row g" "grid_start_column g"]
  obtain r c where
    a: "grid_placements g ! i = grid_item g (grid_chart_ids g ! i) r c" and
    b: "grid_placements g ! Suc i =
       (if 12 <s c + grid_width g + grid_width g
        then grid_item g (grid_chart_ids g ! Suc i) (r + 1) (grid_start_column g)
        else grid_item g (grid_chart_ids g ! Suc i) r (c + grid_width g))"
    unfolding grid_placements_def by blast
  have "placement_row (grid_placements g ! i) = Some r"
       "placement_column (grid_placements g ! i) = Some c"
       "map_of (grid_placements g ! i) ''height'' = Some (JInt (grid_height g))"
    by (simp_all add: a grid_item_def placement_row_def placement_column_def)
  moreover
  have "placement_row (grid_placements g ! Suc i) =
       Some (if 12 <s c + grid_width g + grid_width g then r + 1 else r)"
       "placement_column (grid_placements g ! Suc i) =
       Some (if 12 <s c + grid_width g + grid_width g then grid_start_column g
             else c + grid_width g)"
    by (simp_all add: b)
  ultimately show ?thesis by blast
qed

text \<open>
  Claim C2, as amended. A grid group contributes one placement per chart id. Before a
  chart is placed, the running column plus the width is compared with 12: when it is
  larger, the row goes up by one and the column goes back to the group's
  \<open>start_column\<close> (not to 0); otherwise the chart goes to the running row and column.
  The running column after a placement at column \<open>c\<close> is \<open>c + width\<close>. In
  particular a group with \<open>start_column = 2\<close>, \<open>width = 6\<close> and three chart ids
  yields \<open>(r, 2)\<close>, \<open>(r + 1, 2)\<close>, \<open>(r + 2, 2)\<close> for \<open>r = start_row\<close>: the second
  chart would end at column 14, so it wraps already.
\<close>

theorem grid_wrap_to_start_column:
  "length (grid_placements g) = length (grid_chart_ids g) \<and>
   (grid_chart_ids g \<noteq> [] \<longrightarrow>
      placement_row (grid_placements g ! 0) =
        Some (if 12 <s grid_start_column g + grid_width g then grid_start_row g + 1
              else grid_start_row g) \<and>
      placement_column (grid_placements g ! 0) = Some (grid_start_column g)) \<and>
   (\<forall>i. Suc i < length (grid_chart_ids g) \<longrightarrow>
      (\<exists>r c. placement_row (grid_placements g ! i) = Some r \<and>
         placement_column (grid_placements g ! i) = Some c \<and>
         placement_row (grid_placements g ! Suc i) =
           Some (if 12 <s c + grid_width g + grid_width g then r + 1 else r) \<and>
         placement_column (grid_placements g ! Suc i) =
           Some (if 12 <s c + grid_width g + grid_width g then grid_start_column g
                 else c + grid_width g))) \<and>
   (grid_start_column g = 2 \<and> grid_width g = 6 \<and> length (grid_chart_ids g) = 3 \<longrightarrow>
      map (\<lambda>p. (placement_row p, placement_column p)) (grid_placements g) =
        [(Some (grid_start_row g), Some 2), (Some (grid_start_row g + 1), Some 2),
         (Some (grid_start_row g + 2), Some 2)])"
proof (intro conjI allI impI)
  show "length (grid_placements g) = length (grid_chart_ids g)"
    by (simp add: grid_placements_def length_grid_loop)
next
  assume "grid_chart_ids g \<noteq> []"
  note first = grid_placements_first [OF this]
  show "placement_row (grid_placements g ! 0) =
        Some (if 12 <s grid_start_column g + grid_width g then grid_start_row g + 1
              else grid_start_row g)"
    by (simp add: first)
  show "placement_column (grid_placements g ! 0) = Some (grid_start_column g)"
    by (simp add: first)
next
  fix i assume "Suc i < length (grid_chart_ids g)"
  from grid_placements_step [OF this]
  show "\<exists>r c. placement_row (grid_placements g ! i) = Some r \<and>
         placement_column (grid_placements g ! i) = Some c \<and>
         placement_row (grid_placements g ! Suc i) =
           Some (if 12 <s c + grid_width g + grid_width g then r + 1 else r) \<and>
         placement_column (grid_placements g ! Suc i) =
           Some (if 12 <s c + grid_width g + grid_width g then grid_start_column g
                 else c + grid_width g)"
    by blast
next
  assume a: "grid_start_column g = 2 \<and> grid_width g = 6 \<and> length (grid_chart_ids g) = 3"
  then obtain x y z where ids: "grid_chart_ids g = [x, y, z]"
    by (auto simp: length_Suc_conv numeral_3_eq_3)
  show "map (\<lambda>p. (placement_row p, placement_column p)) (grid_placements g) =
        [(Some (grid_start_row g), Some 2), (Some (grid_start_row g + 1), Some 2),
         (Some (grid_start_row g + 2), Some 2)]"
    using a by (simp add: grid_placements_def ids grid_loop_Cons)
qed


text \<open>
  The same at \<open>start_row = 4\<close>; with width 5 the second chart still fits on the first
  row, at column 7.
\<close>

theorem grid_wrap_to_start_column_witness:
  "Suc 0 < length (grid_chart_ids
      \<lparr>grid_chart_ids = [''a'', ''b'', ''c''], grid_start_row = 4, grid_start_column = 2,
       grid_width = 5, grid_height = 1\<rparr>) \<and>
   map (\<lambda>p. (placement_row p, placement_column p)) (grid_placements
      \<lparr>grid_chart_ids = [''a'', ''b'', ''c''], grid_start_row = 4, grid_start_column = 2,
       grid_width = 5, grid_height = 1\<rparr>) =
     [(Some 4, Some 2), (Some 4, Some 7), (Some 5, Some 2)] \<and>
   map (\<lambda>p. (placement_row p, placement_column p)) (grid_placements
      \<lparr>grid_chart_ids = [''a'', ''b'', ''c''], grid_start_row = 4, grid_start_column = 2,
       grid_width = 6, grid_height = 1\<rparr>) =
     [(Some 4, Some 2), (Some 5, Some 2), (Some 6, Some 2)]"
  using grid_wrap_to_start_column
      [of "\<lparr>grid_chart_ids = [''a'', ''b'', ''c''], grid_start_row = 4, grid_start_column = 2,
       grid_width = 6, grid_height = 1\<rparr>"]
  by (simp add: grid_placements_def grid_loop_Cons)

text \<open>
  Claim C2 as the specification states it gives \<open>(r, 2)\<close>, \<open>(r, 8)\<close>,
  \<open>(r + 1, 2)\<close> for that group. For \<open>r = 0\<close> the resolver returns
  \<open>(0, 2)\<close>, \<open>(1, 2)\<close>, \<open>(2, 2)\<close>.
\<close>

theorem grid_example_counterexample:
  "map (\<lambda>p. (placement_row p, placement_column p)) (getDashboardGrids (blank_dashboard
      \<lparr>grid := [\<lparr>grid_chart_ids = [''a'', ''b'', ''c''], grid_start_row = 0,
                 grid_start_column = 2, grid_width = 6, grid_height = 1\<rparr>]\<rparr>)) =
     [(Some 0, Some 2), (Some 1, Some 2), (Some 2, Some 2)] \<and>
   map (\<lambda>p. (placement_row p, placement_column p)) (getDashboardGrids (blank_dashboard
      \<lparr>grid := [\<lparr>grid_chart_ids = [''a'', ''b'', ''c''], grid_start_row = 0,
                 grid_start_column = 2, grid_width = 6, grid_height = 1\<rparr>]\<rparr>)) \<noteq>
     [(Some 0, Some 2), (Some 0, Some 8), (Some (0 + 1), Some 2)]"
  by (simp add: getDashboardGrids_def blank_dashboard_def grid_loop_Cons)

text \<open>
  For a group inside the schema's ranges the sums of the loop do not wrap around, so the
  comparison with 12 is the comparison of the exact sums.
\<close>

lemma sint_add_small:
  fixes a w :: go_int
  assumes "0 \<le> sint a" "sint a \<le> 12" "1 \<le> sint w" "sint w \<le> 12"
  shows "sint (a + w) = sint a + sint w"
proof -
  have "sint (a + w) = signed_take_bit (LENGTH(64) - 1) (sint a + sint w)"
    by (simp add: sint_word_ariths)
  also have "\<dots> = sint a + sint w"
    using assms by (intro signed_take_bit_int_eq_self) simp_all
  finally show ?thesis .
qed

lemma grid_loop_fits_exact:
  assumes "0 \<le> sint (grid_start_column g)" "1 \<le> sint (grid_width g)"
    and "sint (grid_start_column g) + sint (grid_width g) \<le> 12"
  shows "0 \<le> sint c \<Longrightarrow> sint c \<le> 12 \<Longrightarrow> p \<in> set (grid_loop g r c ids []) \<Longrightarrow>
   \<exists>cid rp cp. p = grid_item g cid rp cp \<and> 0 \<le> sint cp \<and>
      sint cp + sint (grid_width g) \<le> 12"
proof (induction ids arbitrary: r c)
  case Nil
  then show ?case by simp
next
  case (Cons cid rest)
  from assms have w: "sint (grid_width g) \<le> 12" by simp
  from assms have sc: "sint (grid_start_column g) \<le> 12" by simp
  have sum_c: "sint (c + grid_width g) = sint c + sint (grid_width g)"
    using Cons.prems(1,2) assms(2) w by (rule sint_add_small)
  have sum_sc: "sint (grid_start_column g + grid_width g) =
      sint (grid_start_column g) + sint (grid_width g)"
    using assms(1) sc assms(2) w by (rule sint_add_small)
  show ?case
  proof (cases "12 <s c + grid_width g")
    case True
    with Cons.prems(3)
    have "p = grid_item g cid (r + 1) (grid_start_column g) \<or>
          p \<in> set (grid_loop g (r + 1) (grid_start_column g + grid_width g) rest [])"
      by (simp add: grid_loop_Cons)
    then show ?thesis
    proof
      assume "p = grid_item g cid (r + 1) (grid_start_column g)"
      with assms show ?thesis by blast
    next
      assume "p \<in> set (grid_loop g (r + 1) (grid_start_column g + grid_width g) rest [])"
      moreover have "0 \<le> sint (grid_start_column g + grid_width g)"
        "sint (grid_start_column g + grid_width g) \<le> 12"
        using assms by (simp_all add: sum_sc)
      ultimately show ?thesis using Cons.IH by blast
    qed
  next
    case False
    then have fit: "sint c + sint (grid_width g) \<le> 12"
      by (simp add: word_sless_alt sum_c)
    from False Cons.prems(3)
    have "p = grid_item g cid r c \<or> p \<in> set (grid_loop g r (c + grid_width g) rest [])"
      by (simp add: grid_loop_Cons)
    then show ?thesis
    proof
      assume "p = grid_item g cid r c"
      with fit Cons.prems(1) show ?thesis by blast
    next
      assume "p \<in> set (grid_loop g r (c + grid_width g) rest [])"
      moreover have "0 \<le> sint (c + grid_width g)" "sint (c + grid_width g) \<le> 12"
        using fit Cons.prems(1) assms(2) by (simp_all add: sum_c)
      ultimately show ?thesis using Cons.IH by blast
    qed
  qed
qed

text \<open>
  Claim C6. For a grid group whose \<open>start_column + width\<close> does not exceed 12, every
  placement that the group contributes to the resolver's result has the group's width
  and a column with \<open>column + width \<le> 12\<close>. Hence a placement that exceeds 12 can
  only come from a group with \<open>start_column + width > 12\<close>. The sum and the comparison
  are those of Go's \<open>int\<close>, as the loop computes them; for a group with a start column
  of at least 0 and a width of at least 1 whose exact sum is at most 12, the exact sum
  \<open>column + width\<close> of every placement is at most 12 as well.
\<close>

theorem grid_packing_invariant:
  assumes "g \<in> set (grid d)"
      and "grid_start_column g + grid_width g \<le>s 12"
      and "p \<in> set (grid_placements g)"
  shows "p \<in> set (getDashboardGrids d) \<and>
         map_of p ''width'' = Some (JInt (grid_width g)) \<and>
         (\<exists>c. placement_column p = Some c \<and> c + grid_width g \<le>s 12 \<and>
            (0 \<le> sint (grid_start_column g) \<and> 1 \<le> sint (grid_width g) \<and>
             sint (grid_start_column g) + sint (grid_width g) \<le> 12 \<longrightarrow>
               0 \<le> sint c \<and> sint c + sint (grid_width g) \<le> 12))"
proof -
  from assms(1,3) have "p \<in> set (getDashboardGrids d)"
    by (auto simp: getDashboardGrids_concat)
  moreover
  from grid_loop_fits [OF assms(2), of p "grid_start_row g" "grid_start_column g"
                         "grid_chart_ids g"] assms(3)
  obtain cid rp cp where p: "p = grid_item g cid rp cp" and fit: "cp + grid_width g \<le>s 12"
    unfolding grid_placements_def by blast
  have "map_of p ''width'' = Some (JInt (grid_width g))"
    by (simp add: p grid_item_def)
  moreover
  have "0 \<le> sint cp \<and> sint cp + sint (grid_width g) \<le> 12"
    if range: "0 \<le> sint (grid_start_column g) \<and> 1 \<le> sint (grid_width g) \<and>
             sint (grid_start_column g) + sint (grid_width g) \<le> 12"
  proof -
    from range have "sint (grid_start_column g) \<le> 12" by simp
    with range assms(3)
      grid_loop_fits_exact [of g "grid_start_column g" p "grid_start_row g" "grid_chart_ids g"]
    obtain cid' rp' cp' where "p = grid_item g cid' rp' cp'"
        "0 \<le> sint cp'" "sint cp' + sint (grid_width g) \<le> 12"
      unfolding grid_placements_def by blast
    with p show ?thesis by (simp add: grid_item_def)
  qed
  with fit have "\<exists>c. placement_column p = Some c \<and> c + grid_width g \<le>s 12 \<and>
            (0 \<le> sint (grid_start_column g) \<and> 1 \<le> sint (grid_width g) \<and>
             sint (grid_start_column g) + sint (grid_width g) \<le> 12 \<longrightarrow>
               0 \<le> sint c \<and> sint c + sint (grid_width g) \<le> 12)"
    by (simp add: p)
  ultimately show ?thesis by blast
qed

text \<open>The same at the second placement of a group with start column 2 and width 5.\<close>

theorem grid_packing_invariant_witness:
  "\<lparr>grid_chart_ids = [''a'', ''b'', ''c''], grid_start_row = 0, grid_start_column = 2,
     grid_width = 5, grid_height = 1\<rparr>
     \<in> set (grid (blank_dashboard
         \<lparr>grid := [\<lparr>grid_chart_ids = [''a'', ''b'', ''c''], grid_start_row = 0,
                    grid_start_column = 2, grid_width = 5, grid_height = 1\<rparr>]\<rparr>)) \<and>
   (2 :: go_int) + 5 \<le>s 12 \<and>
   grid_item \<lparr>grid_chart_ids = [''a'', ''b'', ''c''], grid_start_row = 0, grid_start_column = 2,
     grid_width = 5, grid_height = 1\<rparr> ''b'' 0 7
     \<in> set (grid_placements \<lparr>grid_chart_ids = [''a'', ''b'', ''c''], grid_start_row = 0,
         grid_start_column = 2, grid_width = 5, grid_height = 1\<rparr>) \<and>
   (7 :: go_int) + 5 \<le>s 12 \<and>
   0 \<le> sint (2 :: go_int) \<and> 1 \<le> sint (5 :: go_int) \<and>
   sint (2 :: go_int) + sint (5 :: go_int) \<le> 12 \<and>
   sint (7 :: go_int) + sint (5 :: go_int) \<le> 12"
  using grid_packing_invariant
      [of "\<lparr>grid_chart_ids = [''a'', ''b'', ''c''], grid_start_row = 0, grid_start_column = 2,
            grid_width = 5, grid_height = 1\<rparr>"
          "blank_dashboard
             \<lparr>grid := [\<lparr>grid_chart_ids = [''a'', ''b'', ''c''], grid_start_row = 0,
                        grid_start_column = 2, grid_width = 5, grid_height = 1\<rparr>]\<rparr>"
          "grid_item \<lparr>grid_chart_ids = [''a'', ''b'', ''c''], grid_start_row = 0,
             grid_start_column = 2, grid_width = 5, grid_height = 1\<rparr> ''b'' 0 7"]
  by (simp add: grid_placements_def grid_loop_Cons)

text \<open>
  Claim C10. When a grid group wraps, the row goes up by exactly 1, whatever the shared
  height is: at the first chart the row is \<open>start_row + 1\<close>, and at a later chart it
  is the row of the placement before it plus 1. So when the height is at least 2, the
  placement after a wrap starts on a row that the placement before the wrap still
  covers.
\<close>

theorem grid_wrap_advances_one_row:
  "(grid_chart_ids g \<noteq> [] \<and> 12 <s grid_start_column g + grid_width g \<longrightarrow>
      placement_row (grid_placements g ! 0) = Some (grid_start_row g + 1)) \<and>
   (\<forall>i. Suc i < length (grid_chart_ids g) \<longrightarrow>
      (\<exists>r c. placement_row (grid_placements g ! i) = Some r \<and>
         placement_column (grid_placements g ! i) = Some c \<and>
         (12 <s c + grid_width g + grid_width g \<longrightarrow>
            placement_row (grid_placements g ! Suc i) = Some (r + 1) \<and>
            (2 \<le>s grid_height g \<longrightarrow> occupies (grid_placements g ! i) (r + 1)))))"
proof (intro conjI allI impI)
  assume "grid_chart_ids g \<noteq> [] \<and> 12 <s grid_start_column g + grid_width g"
  then show "placement_row (grid_placements g ! 0) = Some (grid_start_row g + 1)"
    by (simp add: grid_placements_first)
next
  fix i assume "Suc i < length (grid_chart_ids g)"
  from grid_placements_step [OF this]
  obtain r c where
    r: "placement_row (grid_placements g ! i) = Some r" and
    c: "placement_column (grid_placements g ! i) = Some c" and
    h: "map_of (grid_placements g ! i) ''height'' = Some (JInt (grid_height g))" and
    r': "placement_row (grid_placements g ! Suc i) =
       Some (if 12 <s c + grid_width g + grid_width g then r + 1 else r)"
    by blast
  from r have row: "map_of (grid_placements g ! i) ''row'' = Some (JInt r)"
    by (auto simp: placement_row_def split: option.splits json.splits)
  have "2 \<le>s grid_height g \<Longrightarrow> occupies (grid_placements g ! i) (r + 1)"
  proof -
    assume "2 \<le>s grid_height g"
    moreover have "(1 :: go_int) <s 2"
      by (simp add: word_sless_alt)
    ultimately have "1 <s grid_height g"
      using signed.less_le_trans [of 1 2 "grid_height g"] by blast
    moreover have "(0 :: go_int) \<le>s 1"
      by (simp add: word_sle_eq)
    ultimately show ?thesis
      by (simp add: occupies_def row h)
  qed
  with r c r'
  show "\<exists>r c. placement_row (grid_placements g ! i) = Some r \<and>
         placement_column (grid_placements g ! i) = Some c \<and>
         (12 <s c + grid_width g + grid_width g \<longrightarrow>
            placement_row (grid_placements g ! Suc i) = Some (r + 1) \<and>
            (2 \<le>s grid_height g \<longrightarrow> occupies (grid_placements g ! i) (r + 1)))"
    by auto
qed

text \<open>
  The same at a group with start column 2, width 11 and height 3: both charts wrap, and
  the second starts on row 2, which the first (rows 1 to 3) covers.
\<close>

theorem grid_wrap_advances_one_row_witness:
  "grid_chart_ids
      \<lparr>grid_chart_ids = [''a'', ''b''], grid_start_row = 0, grid_start_column = 2,
       grid_width = 11, grid_height = 3\<rparr> \<noteq> [] \<and>
   (12 :: go_int) <s 2 + 11 \<and>
   Suc 0 < length (grid_chart_ids
      \<lparr>grid_chart_ids = [''a'', ''b''], grid_start_row = 0, grid_start_column = 2,
       grid_width = 11, grid_height = 3\<rparr>) \<and>
   placement_row (grid_placements
      \<lparr>grid_chart_ids = [''a'', ''b''], grid_start_row = 0, grid_start_column = 2,
       grid_width = 11, grid_height = 3\<rparr> ! 0) = Some 1 \<and>
   placement_column (grid_placements
      \<lparr>grid_chart_ids = [''a'', ''b''], grid_start_row = 0, grid_start_column = 2,
       grid_width = 11, grid_height = 3\<rparr> ! 0) = Some 2 \<and>
   (12 :: go_int) <s 2 + 11 + 11 \<and> (2 :: go_int) \<le>s 3 \<and>
   placement_row (grid_placements
      \<lparr>grid_chart_ids = [''a'', ''b''], grid_start_row = 0, grid_start_column = 2,
       grid_width = 11, grid_height = 3\<rparr> ! Suc 0) = Some 2 \<and>
   occupies (grid_placements
      \<lparr>grid_chart_ids = [''a'', ''b''], grid_start_row = 0, grid_start_column = 2,
       grid_width = 11, grid_height = 3\<rparr> ! 0) 2"
  using grid_wrap_advances_one_row
      [of "\<lparr>grid_chart_ids = [''a'', ''b''], grid_start_row = 0, grid_start_column = 2,
       grid_width = 11, grid_height = 3\<rparr>"]
  by (simp add: grid_placements_def grid_loop_Cons occupies_grid_item)

section \<open>The time window and the payload\<close>

lemma getDashboardTime_cases:
  "getDashboardTime d =
     (case GetOk_string (time_range d) of
        Some s \<Rightarrow> Some [(''start'', JString s), (''end'', JString ''Now'')]
      | None \<Rightarrow>
          (case (GetOk_int (start_time d), GetOk_int (end_time d)) of
             (None, None) \<Rightarrow> None
           | (Some a, None) \<Rightarrow> Some [(''start'', JInt (a * 1000))]
           | (None, Some b) \<Rightarrow> Some [(''end'', JInt (b * 1000))]
           | (Some a, Some b) \<Rightarrow>
               Some [(''start'', JInt (a * 1000)), (''end'', JInt (b * 1000))]))"
  by (simp add: getDashboardTime_def split: option.split)

lemma getDashboardTime_nonempty: "getDashboardTime d = Some t \<Longrightarrow> t \<noteq> []"
  by (auto simp: getDashboardTime_def Let_def split: if_splits)

lemma dashboard_all_filters_eq: "dashboard_all_filters d = filters_document d"
proof (cases "getDashboardTime d")
  case None
  then show ?thesis
    by (simp add: dashboard_all_filters_def filters_document_def
          getDashboardFilters_def getDashboardVariables_def)
next
  case (Some t)
  with getDashboardTime_nonempty [OF Some] show ?thesis
    by (simp add: dashboard_all_filters_def filters_document_def
          getDashboardFilters_def getDashboardVariables_def)
qed

lemma payload_filters:
  "map_of (getPayloadDashboard P U d) ''filters'' =
     (if filters_document d = [] then None else Some (JObject (filters_document d)))"
  by (simp add: getPayloadDashboard_def dashboard_all_filters_eq map_of_assign Let_def
        split: option.split)

lemma payload_charts:
  "map_of (getPayloadDashboard P U d) ''charts'' =
     (if getDashboardCharts d @ getDashboardColumns d @ getDashboardGrids d = [] then None
      else Some (JArray (map JObject
             (getDashboardCharts d @ getDashboardColumns d @ getDashboardGrids d))))"
  by (simp add: getPayloadDashboard_def map_of_assign Let_def split: option.split)

lemma payload_chartDensity:
  "map_of (getPayloadDashboard P U d) ''chartDensity'' =
     map_option (\<lambda>r. JString (U r)) (charts_resolution d)"
  by (simp add: getPayloadDashboard_def map_of_assign Let_def split: option.split)

lemma payload_eventOverlays:
  "map_of (getPayloadDashboard P U d) ''eventOverlays'' =
     Some (JArray (map JObject (getDashboardEventOverlays P (event_overlay d))))"
  "map_of (getPayloadDashboard P U d) ''selectedEventOverlays'' =
     Some (JArray (map JObject (getDashboardEventOverlays P (selected_event_overlay d))))"
  by (simp_all add: getPayloadDashboard_def map_of_assign Let_def split: option.split)

lemma payload_fixed:
  "map_of (getPayloadDashboard P U d) ''name'' = Some (JString (name d))"
  "map_of (getPayloadDashboard P U d) ''description'' = Some (JString (description d))"
  "map_of (getPayloadDashboard P U d) ''groupId'' = Some (JString (dashboard_group d))"
  by (simp_all add: getPayloadDashboard_def map_of_assign Let_def split: option.split)

lemma payload_keys:
  "dom (map_of (getPayloadDashboard P U d)) \<subseteq>
     {''name'', ''description'', ''groupId'', ''filters'', ''eventOverlays'',
      ''selectedEventOverlays'', ''charts'', ''chartDensity''}"
  by (simp add: getPayloadDashboard_def map_of_assign Let_def subset_iff
        split: option.split)


lemma filters_document_keys:
  "map_of (filters_document d) ''sources'' =
     (if filter_defs d = [] then None
      else Some (JArray (map JObject (getDashboardFilters d))))"
  "map_of (filters_document d) ''variables'' =
     (if variable d = [] then None
      else Some (JArray (map JObject (getDashboardVariables d))))"
  "map_of (filters_document d) ''time'' = map_option JObject (getDashboardTime d)"
  by (simp_all add: filters_document_def split: option.split)

lemma filters_document_empty:
  "filters_document d = [] \<longleftrightarrow>
     filter_defs d = [] \<and> variable d = [] \<and> getDashboardTime d = None"
  by (simp add: filters_document_def split: option.split)

lemma payload_time_eq:
  "payload_time (getPayloadDashboard P U d) = map_option JObject (getDashboardTime d)"
  by (simp add: payload_time_def payload_filters filters_document_keys
        filters_document_empty)

text \<open>
  Claim C3, as amended. A field is set when \<open>d.GetOk\<close> reports it: when it is
  configured with a value other than the zero value of its type, so a non-empty
  \<open>time_range\<close> and a \<open>start_time\<close> or \<open>end_time\<close> other than 0. When
  \<open>time_range\<close> is set, the time projection is exactly
  \<open>{start: <the string>, end: "Now"}\<close>, whatever \<open>start_time\<close> and \<open>end_time\<close>
  are. When it is not set, each of \<open>start_time\<close> and \<open>end_time\<close> that is set is
  emitted multiplied by 1000, and one that is left out or configured as 0 yields no key:
  only \<open>start_time = 100\<close> gives \<open>{start: 100000}\<close>, and \<open>start_time = 0\<close> gives
  no \<open>start\<close> key. The \<open>time\<close> sub-key of the payload is the projection when there
  is one, and when none of the three fields is set the payload has no \<open>time\<close>
  sub-key. The product is that of Go's \<open>int\<close>.
\<close>

theorem dashboard_time_projection:
  "(\<forall>s. time_range d = Some s \<and> s \<noteq> [] \<longrightarrow>
      getDashboardTime d = Some [(''start'', JString s), (''end'', JString ''Now'')]) \<and>
   (time_range d = None \<or> time_range d = Some [] \<longrightarrow>
      getDashboardTime d =
        (case (GetOk_int (start_time d), GetOk_int (end_time d)) of
           (None, None) \<Rightarrow> None
         | (Some a, None) \<Rightarrow> Some [(''start'', JInt (a * 1000))]
         | (None, Some b) \<Rightarrow> Some [(''end'', JInt (b * 1000))]
         | (Some a, Some b) \<Rightarrow>
             Some [(''start'', JInt (a * 1000)), (''end'', JInt (b * 1000))])) \<and>
   GetOk_int None = None \<and>
   (\<forall>n. GetOk_int (Some n) = (if n = 0 then None else Some n)) \<and>
   (time_range d = None \<and> start_time d = Some 100 \<and> end_time d = None \<longrightarrow>
      getDashboardTime d = Some [(''start'', JInt 100000)]) \<and>
   (time_range d = None \<and> start_time d = Some 0 \<and> end_time d = None \<longrightarrow>
      getDashboardTime d = None) \<and>
   payload_time (getPayloadDashboard P U d) = map_option JObject (getDashboardTime d) \<and>
   (GetOk_string (time_range d) = None \<and> GetOk_int (start_time d) = None \<and>
    GetOk_int (end_time d) = None \<longrightarrow>
      payload_time (getPayloadDashboard P U d) = None)"
proof (intro conjI allI impI)
  fix s assume "time_range d = Some s \<and> s \<noteq> []"
  then show "getDashboardTime d = Some [(''start'', JString s), (''end'', JString ''Now'')]"
    by (simp add: getDashboardTime_cases GetOk_string_def)
next
  assume "time_range d = None \<or> time_range d = Some []"
  then have "GetOk_string (time_range d) = None"
    by (auto simp: GetOk_string_def)
  then show "getDashboardTime d =
        (case (GetOk_int (start_time d), GetOk_int (end_time d)) of
           (None, None) \<Rightarrow> None
         | (Some a, None) \<Rightarrow> Some [(''start'', JInt (a * 1000))]
         | (None, Some b) \<Rightarrow> Some [(''end'', JInt (b * 1000))]
         | (Some a, Some b) \<Rightarrow>
             Some [(''start'', JInt (a * 1000)), (''end'', JInt (b * 1000))])"
    by (simp add: getDashboardTime_cases)
next
  show "GetOk_int None = None"
    by (simp add: GetOk_int_def)
next
  fix n :: go_int
  show "GetOk_int (Some n) = (if n = 0 then None else Some n)"
    by (simp add: GetOk_int_def)
next
  assume "time_range d = None \<and> start_time d = Some 100 \<and> end_time d = None"
  then show "getDashboardTime d = Some [(''start'', JInt 100000)]"
    by (simp add: getDashboardTime_cases GetOk_string_def GetOk_int_def)
next
  assume "time_range d = None \<and> start_time d = Some 0 \<and> end_time d = None"
  then show "getDashboardTime d = None"
    by (simp add: getDashboardTime_cases GetOk_string_def GetOk_int_def)
next
  show "payload_time (getPayloadDashboard P U d) = map_option JObject (getDashboardTime d)"
    by (rule payload_time_eq)
next
  assume "GetOk_string (time_range d) = None \<and> GetOk_int (start_time d) = None \<and>
    GetOk_int (end_time d) = None"
  then show "payload_time (getPayloadDashboard P U d) = None"
    by (simp add: payload_time_eq getDashboardTime_cases)
qed

text \<open>
  The same at four dashboards: one with \<open>time_range = "-1h"\<close> and both explicit times
  set, one with only \<open>start_time = 100\<close>, one with only \<open>start_time = 0\<close>, and one
  with no time field.
\<close>

theorem dashboard_time_projection_witness:
  "time_range (blank_dashboard
      \<lparr>time_range := Some ''-1h'', start_time := Some 5, end_time := Some 6\<rparr>) = Some ''-1h'' \<and>
   ''-1h'' \<noteq> [] \<and>
   getDashboardTime (blank_dashboard
      \<lparr>time_range := Some ''-1h'', start_time := Some 5, end_time := Some 6\<rparr>) =
     Some [(''start'', JString ''-1h''), (''end'', JString ''Now'')] \<and>
   time_range (blank_dashboard \<lparr>start_time := Some 100\<rparr>) = None \<and>
   start_time (blank_dashboard \<lparr>start_time := Some 100\<rparr>) = Some 100 \<and>
   end_time (blank_dashboard \<lparr>start_time := Some 100\<rparr>) = None \<and>
   getDashboardTime (blank_dashboard \<lparr>start_time := Some 100\<rparr>) =
     Some [(''start'', JInt 100000)] \<and>
   time_range (blank_dashboard \<lparr>start_time := Some 0\<rparr>) = None \<and>
   start_time (blank_dashboard \<lparr>start_time := Some 0\<rparr>) = Some 0 \<and>
   end_time (blank_dashboard \<lparr>start_time := Some 0\<rparr>) = None \<and>
   getDashboardTime (blank_dashboard \<lparr>start_time := Some 0\<rparr>) = None \<and>
   GetOk_string (time_range blank_dashboard) = None \<and>
   GetOk_int (start_time blank_dashboard) = None \<and>
   GetOk_int (end_time blank_dashboard) = None \<and>
   payload_time (getPayloadDashboard Map.empty ascii_upper blank_dashboard) = None"
  using dashboard_time_projection [of "blank_dashboard
      \<lparr>time_range := Some ''-1h'', start_time := Some 5, end_time := Some 6\<rparr>"
      Map.empty ascii_upper]
    dashboard_time_projection [of "blank_dashboard \<lparr>start_time := Some 100\<rparr>"
      Map.empty ascii_upper]
    dashboard_time_projection [of "blank_dashboard \<lparr>start_time := Some 0\<rparr>"
      Map.empty ascii_upper]
    dashboard_time_projection [of blank_dashboard Map.empty ascii_upper]
  by (simp add: blank_dashboard_def GetOk_string_def GetOk_int_def)

text \<open>
  Claim C3 as the specification states it has every explicit time that the
  configuration sets emitted multiplied by 1000. A dashboard with \<open>start_time = 0\<close>
  and \<open>end_time = 100\<close> and no \<open>time_range\<close> yields \<open>{end: 100000}\<close> with no
  \<open>start\<close> key, not \<open>{start: 0, end: 100000}\<close>; with \<open>start_time = 0\<close> alone the
  projection is \<open>nil\<close> and the payload has no \<open>time\<close> sub-key.
\<close>

theorem time_zero_start_counterexample:
  "time_range (blank_dashboard \<lparr>start_time := Some 0, end_time := Some 100\<rparr>) = None \<and>
   start_time (blank_dashboard \<lparr>start_time := Some 0, end_time := Some 100\<rparr>) = Some 0 \<and>
   getDashboardTime (blank_dashboard \<lparr>start_time := Some 0, end_time := Some 100\<rparr>) =
     Some [(''end'', JInt 100000)] \<and>
   getDashboardTime (blank_dashboard \<lparr>start_time := Some 0, end_time := Some 100\<rparr>) \<noteq>
     Some [(''start'', JInt (0 * 1000)), (''end'', JInt (100 * 1000))] \<and>
   getDashboardTime (blank_dashboard \<lparr>start_time := Some 0\<rparr>) = None \<and>
   getDashboardTime (blank_dashboard \<lparr>start_time := Some 0\<rparr>) \<noteq>
     Some [(''start'', JInt (0 * 1000))] \<and>
   payload_time (getPayloadDashboard Map.empty ascii_upper
     (blank_dashboard \<lparr>start_time := Some 0\<rparr>)) = None"
  by (simp add: payload_time_def getPayloadDashboard_def dashboard_all_filters_def
        getDashboardTime_def GetOk_string_def GetOk_int_def getDashboardFilters_def
        getDashboardVariables_def getDashboardCharts_def getDashboardColumns_def
        getDashboardGrids_def getDashboardEventOverlays_def blank_dashboard_def)

section \<open>The integration payload\<close>

text \<open>
  Claim C4. The integration payload has the key \<open>apiKey\<close> exactly when the type is
  \<open>PagerDuty\<close> (with the configured \<open>api_key\<close>) and the key \<open>webhookUrl\<close>
  exactly when the type is \<open>Slack\<close> (with the configured \<open>webhook_url\<close>); the
  other secret never appears, whatever the caller set. Its keys are among \<open>name\<close>,
  \<open>enabled\<close>, \<open>type\<close> and the two secrets, and any other type gives the three
  plain keys only.
\<close>

theorem integration_secret_projection:
  "map_of (getPayloadIntegration d) ''apiKey'' =
     (if integration_type d = ''PagerDuty'' then Some (JString (api_key d)) else None) \<and>
   map_of (getPayloadIntegration d) ''webhookUrl'' =
     (if integration_type d = ''Slack'' then Some (JString (webhook_url d)) else None) \<and>
   map_of (getPayloadIntegration d) ''name'' = Some (JString (integration_name d)) \<and>
   map_of (getPayloadIntegration d) ''enabled'' = Some (JBool (integration_enabled d)) \<and>
   map_of (getPayloadIntegration d) ''type'' = Some (JString (integration_type d)) \<and>
   dom (map_of (getPayloadIntegration d)) \<subseteq>
     {''name'', ''enabled'', ''type'', ''apiKey'', ''webhookUrl''} \<and>
   (integration_type d \<noteq> ''PagerDuty'' \<and> integration_type d \<noteq> ''Slack'' \<longrightarrow>
      getPayloadIntegration d =
        [(''name'', JString (integration_name d)),
         (''enabled'', JBool (integration_enabled d)),
         (''type'', JString (integration_type d))])"
  by (simp add: getPayloadIntegration_def map_of_assign subset_iff)

text \<open>
  The same at a Slack integration with both secrets set, and at an integration of type
  \<open>Email\<close>.
\<close>

theorem integration_secret_projection_witness:
  "getPayloadIntegration
     \<lparr>integration_name = ''n'', integration_enabled = True, integration_type = ''Slack'',
      api_key = ''key'', webhook_url = ''https://hook''\<rparr> =
     [(''name'', JString ''n''), (''enabled'', JBool True), (''type'', JString ''Slack''),
      (''webhookUrl'', JString ''https://hook'')] \<and>
   map_of (getPayloadIntegration
     \<lparr>integration_name = ''n'', integration_enabled = True, integration_type = ''Slack'',
      api_key = ''key'', webhook_url = ''https://hook''\<rparr>) ''apiKey'' = None \<and>
   integration_type
     \<lparr>integration_name = ''n'', integration_enabled = True, integration_type = ''Email'',
      api_key = ''key'', webhook_url = ''https://hook''\<rparr> \<noteq> ''PagerDuty'' \<and>
   integration_type
     \<lparr>integration_name = ''n'', integration_enabled = True, integration_type = ''Email'',
      api_key = ''key'', webhook_url = ''https://hook''\<rparr> \<noteq> ''Slack'' \<and>
   getPayloadIntegration
     \<lparr>integration_name = ''n'', integration_enabled = True, integration_type = ''Email'',
      api_key = ''key'', webhook_url = ''https://hook''\<rparr> =
     [(''name'', JString ''n''), (''enabled'', JBool True), (''type'', JString ''Email'')]"
  using integration_secret_projection
     [of "\<lparr>integration_name = ''n'', integration_enabled = True, integration_type = ''Slack'',
      api_key = ''key'', webhook_url = ''https://hook''\<rparr>"]
    integration_secret_projection
     [of "\<lparr>integration_name = ''n'', integration_enabled = True, integration_type = ''Email'',
      api_key = ''key'', webhook_url = ''https://hook''\<rparr>"]
  by (simp add: getPayloadIntegration_def)


section \<open>Variables\<close>

lemma variable_item_value:
  "map_of (variable_item v) ''value'' =
     Some (case variable_values v of
             None \<Rightarrow> JString []
           | Some vs \<Rightarrow> if vs = [] then JString [] else JArray (map JString vs))"
  by (simp add: variable_item_def map_of_assign Let_def split: option.split)

lemma variable_item_suggestions:
  "map_of (variable_item v) ''preferredSuggestions'' =
     (case variable_values_suggested v of
        None \<Rightarrow> None
      | Some vs \<Rightarrow> if vs = [] then None else Some (JArray (map JString vs)))"
  by (simp add: variable_item_def map_of_assign Let_def split: option.split)

text \<open>
  Claim C5. The variable normalizer returns one object per variable, in order. Its
  \<open>value\<close> is the empty string (a JSON string, not a list) when no values are supplied
  and the list of values otherwise; the key \<open>preferredSuggestions\<close> is present, with
  the suggested values, exactly when there is at least one suggested value.
\<close>

theorem variable_value_and_suggestions:
  "length (getDashboardVariables d) = length (variable d) \<and>
   (\<forall>i < length (variable d).
      map_of (getDashboardVariables d ! i) ''value'' =
        Some (case variable_values (variable d ! i) of
                None \<Rightarrow> JString []
              | Some vs \<Rightarrow> if vs = [] then JString [] else JArray (map JString vs)) \<and>
      map_of (getDashboardVariables d ! i) ''preferredSuggestions'' =
        (case variable_values_suggested (variable d ! i) of
           None \<Rightarrow> None
         | Some vs \<Rightarrow> if vs = [] then None else Some (JArray (map JString vs))))"
  by (simp add: getDashboardVariables_def variable_item_value variable_item_suggestions)

text \<open>The same at a variable with no values and no suggested values.\<close>

theorem variable_value_and_suggestions_witness:
  "0 < length (variable (blank_dashboard
      \<lparr>variable := [\<lparr>variable_property = ''region'', variable_alias = ''Region'',
          variable_description = [], variable_values = Some [],
          variable_value_required = False, variable_values_suggested = Some [],
          variable_restricted_suggestions = False, variable_replace_only = False,
          variable_apply_if_exist = False\<rparr>]\<rparr>)) \<and>
   map_of (getDashboardVariables (blank_dashboard
      \<lparr>variable := [\<lparr>variable_property = ''region'', variable_alias = ''Region'',
          variable_description = [], variable_values = Some [],
          variable_value_required = False, variable_values_suggested = Some [],
          variable_restricted_suggestions = False, variable_replace_only = False,
          variable_apply_if_exist = False\<rparr>]\<rparr>) ! 0) ''value'' = Some (JString []) \<and>
   map_of (getDashboardVariables (blank_dashboard
      \<lparr>variable := [\<lparr>variable_property = ''region'', variable_alias = ''Region'',
          variable_description = [], variable_values = Some [],
          variable_value_required = False, variable_values_suggested = Some [],
          variable_restricted_suggestions = False, variable_replace_only = False,
          variable_apply_if_exist = False\<rparr>]\<rparr>) ! 0) ''preferredSuggestions'' = None"
  using variable_value_and_suggestions [of "blank_dashboard
      \<lparr>variable := [\<lparr>variable_property = ''region'', variable_alias = ''Region'',
          variable_description = [], variable_values = Some [],
          variable_value_required = False, variable_values_suggested = Some [],
          variable_restricted_suggestions = False, variable_replace_only = False,
          variable_apply_if_exist = False\<rparr>]\<rparr>"]
  by (simp add: blank_dashboard_def)

section \<open>Event overlays\<close>

lemma overlay_item_color:
  "map_of (overlay_item P ov) ''eventColorIndex'' =
     (case overlay_color ov of
        None \<Rightarrow> None
      | Some c \<Rightarrow> map_option JInt (P c))"
  by (simp add: overlay_item_def map_of_assign Let_def split: option.split)

text \<open>
  Claim C7. The overlay normalizer returns one object per overlay, for any input, and
  the object has the key \<open>eventColorIndex\<close> exactly when the overlay's \<open>color\<close> is
  set and its name is in the palette table; the value is then the palette index. A
  colour name that the table does not know leaves the key out.
\<close>

theorem overlay_color_index:
  "length (getDashboardEventOverlays P overlays) = length overlays \<and>
   (\<forall>i < length overlays.
      map_of (getDashboardEventOverlays P overlays ! i) ''eventColorIndex'' =
        (case overlay_color (overlays ! i) of
           None \<Rightarrow> None
         | Some c \<Rightarrow> map_option JInt (P c)) \<and>
      (map_of (getDashboardEventOverlays P overlays ! i) ''eventColorIndex'' \<noteq> None \<longleftrightarrow>
         (\<exists>c. overlay_color (overlays ! i) = Some c \<and> P c \<noteq> None)))"
  by (auto simp: getDashboardEventOverlays_def overlay_item_color split: option.split)

text \<open>
  The same with a palette of two colours: \<open>chartreuse\<close> is not in it and gives no key,
  \<open>blue\<close> gives index 1.
\<close>

theorem overlay_color_index_witness:
  "(0 :: nat) < length
      [\<lparr>overlay_line = Some False, overlay_label = None, overlay_color = Some ''chartreuse'',
        overlay_signal = ''deploy'', overlay_type = ''eventTimeSeries'',
        overlay_source = None\<rparr>] \<and>
   map_of (getDashboardEventOverlays [''gray'' \<mapsto> 0, ''blue'' \<mapsto> 1]
      [\<lparr>overlay_line = Some False, overlay_label = None, overlay_color = Some ''chartreuse'',
        overlay_signal = ''deploy'', overlay_type = ''eventTimeSeries'',
        overlay_source = None\<rparr>] ! 0) ''eventColorIndex'' = None \<and>
   getDashboardEventOverlays [''gray'' \<mapsto> 0, ''blue'' \<mapsto> 1]
      [\<lparr>overlay_line = Some False, overlay_label = None, overlay_color = Some ''chartreuse'',
        overlay_signal = ''deploy'', overlay_type = ''eventTimeSeries'',
        overlay_source = None\<rparr>] =
     [[(''eventSignal'', JObject [(''eventSearchText'', JString ''deploy''),
                                  (''eventType'', JString ''eventTimeSeries'')]),
       (''eventLine'', JBool False)]] \<and>
   map_of (getDashboardEventOverlays [''gray'' \<mapsto> 0, ''blue'' \<mapsto> 1]
      [\<lparr>overlay_line = Some False, overlay_label = None, overlay_color = Some ''blue'',
        overlay_signal = ''deploy'', overlay_type = ''eventTimeSeries'',
        overlay_source = None\<rparr>] ! 0) ''eventColorIndex'' = Some (JInt 1)"
  using overlay_color_index [of "[''gray'' \<mapsto> 0, ''blue'' \<mapsto> 1]"
      "[\<lparr>overlay_line = Some False, overlay_label = None, overlay_color = Some ''chartreuse'',
        overlay_signal = ''deploy'', overlay_type = ''eventTimeSeries'',
        overlay_source = None\<rparr>]"]
    overlay_color_index [of "[''gray'' \<mapsto> 0, ''blue'' \<mapsto> 1]"
      "[\<lparr>overlay_line = Some False, overlay_label = None, overlay_color = Some ''blue'',
        overlay_signal = ''deploy'', overlay_type = ''eventTimeSeries'',
        overlay_source = None\<rparr>]"]
  by (simp add: getDashboardEventOverlays_def overlay_item_def)

section \<open>Validators\<close>

text \<open>
  Claim C9. Each of the three validators returns no warning, and no error when the value
  is in its allowed set; otherwise it returns exactly one error, whose message names the
  value and lists the allowed words.
\<close>

theorem enum_validators:
  "validateChartsResolution v k =
     ([], if v \<in> {''default'', ''low'', ''high'', ''highest''} then []
          else [v @ '' not allowed; must be one of: default, low, high, highest'']) \<and>
   validateEventOverlayType v k =
     ([], if v \<in> {''eventTimeSeries'', ''detectorEvents''} then []
          else [v @ '' not allowed; must be one of: eventTimeSeries, detectorEvents'']) \<and>
   validateIntegrationType v k =
     ([], if v \<in> {''PagerDuty'', ''Slack''} then []
          else [v @ '' not allowed; must be one of: PagerDuty, Slack''])"
  by (simp add: validateChartsResolution_def validateEventOverlayType_def
        validateIntegrationType_def)

text \<open>The same at \<open>medium\<close>, \<open>detectorEvents\<close> and \<open>Email\<close>.\<close>

theorem enum_validators_witness:
  "validateChartsResolution ''medium'' ''charts_resolution'' =
     ([], [''medium not allowed; must be one of: default, low, high, highest'']) \<and>
   validateEventOverlayType ''detectorEvents'' ''type'' = ([], []) \<and>
   validateIntegrationType ''Email'' ''type'' =
     ([], [''Email not allowed; must be one of: PagerDuty, Slack''])"
  using enum_validators [of "''medium''" "''charts_resolution''"]
    enum_validators [of "''detectorEvents''" "''type''"]
    enum_validators [of "''Email''" "''type''"]
  by simp


section \<open>Optional keys of the dashboard payload\<close>

text \<open>
  Claim C8. The payload has no key \<open>filters\<close> when sources, variables and time are
  all empty; otherwise \<open>filters\<close> is an object with exactly the non-empty ones among
  \<open>sources\<close>, \<open>variables\<close> and \<open>time\<close>. It has no key \<open>charts\<close> when the list
  of explicit, column and grid placements is empty, and that list otherwise. It has no
  key \<open>chartDensity\<close> when \<open>charts_resolution\<close> is not set, and the upper-cased
  resolution otherwise. The keys \<open>eventOverlays\<close> and \<open>selectedEventOverlays\<close> are
  always present, with lists that may be empty. The payload has no key besides these
  and \<open>name\<close>, \<open>description\<close>, \<open>groupId\<close>.
\<close>

theorem payload_optional_keys:
  "map_of (getPayloadDashboard P U d) ''filters'' =
     (if filter_defs d = [] \<and> variable d = [] \<and> getDashboardTime d = None then None
      else Some (JObject (filters_document d))) \<and>
   map_of (filters_document d) ''sources'' =
     (if filter_defs d = [] then None
      else Some (JArray (map JObject (getDashboardFilters d)))) \<and>
   map_of (filters_document d) ''variables'' =
     (if variable d = [] then None
      else Some (JArray (map JObject (getDashboardVariables d)))) \<and>
   map_of (filters_document d) ''time'' = map_option JObject (getDashboardTime d) \<and>
   dom (map_of (filters_document d)) \<subseteq> {''sources'', ''variables'', ''time''} \<and>
   map_of (getPayloadDashboard P U d) ''charts'' =
     (if getDashboardCharts d @ getDashboardColumns d @ getDashboardGrids d = [] then None
      else Some (JArray (map JObject
             (getDashboardCharts d @ getDashboardColumns d @ getDashboardGrids d)))) \<and>
   map_of (getPayloadDashboard P U d) ''chartDensity'' =
     map_option (\<lambda>r. JString (U r)) (charts_resolution d) \<and>
   map_of (getPayloadDashboard P U d) ''eventOverlays'' =
     Some (JArray (map JObject (getDashboardEventOverlays P (event_overlay d)))) \<and>
   map_of (getPayloadDashboard P U d) ''selectedEventOverlays'' =
     Some (JArray (map JObject (getDashboardEventOverlays P (selected_event_overlay d)))) \<and>
   dom (map_of (getPayloadDashboard P U d)) \<subseteq>
     {''name'', ''description'', ''groupId'', ''filters'', ''eventOverlays'',
      ''selectedEventOverlays'', ''charts'', ''chartDensity''}"
proof (intro conjI)
  show "map_of (getPayloadDashboard P U d) ''filters'' =
     (if filter_defs d = [] \<and> variable d = [] \<and> getDashboardTime d = None then None
      else Some (JObject (filters_document d)))"
    by (simp add: payload_filters filters_document_empty)
  show "dom (map_of (filters_document d)) \<subseteq> {''sources'', ''variables'', ''time''}"
    by (auto simp: filters_document_def split: option.splits if_splits)
qed (simp_all only: filters_document_keys payload_charts payload_chartDensity
       payload_eventOverlays payload_keys)

text \<open>
  The same at the blank dashboard and at one with \<open>charts_resolution = "high"\<close> and
  \<open>start_time = 100\<close>.
\<close>

theorem payload_optional_keys_witness:
  "getPayloadDashboard Map.empty ascii_upper blank_dashboard =
     [(''name'', JString ''d''), (''description'', JString []), (''groupId'', JString ''g''),
      (''eventOverlays'', JArray []), (''selectedEventOverlays'', JArray [])] \<and>
   map_of (getPayloadDashboard Map.empty ascii_upper blank_dashboard) ''filters'' = None \<and>
   map_of (getPayloadDashboard Map.empty ascii_upper blank_dashboard) ''charts'' = None \<and>
   map_of (getPayloadDashboard Map.empty ascii_upper blank_dashboard) ''chartDensity'' = None \<and>
   map_of (getPayloadDashboard Map.empty ascii_upper
      (blank_dashboard \<lparr>charts_resolution := Some ''high'', start_time := Some 100\<rparr>))
      ''chartDensity'' = Some (JString ''HIGH'') \<and>
   map_of (getPayloadDashboard Map.empty ascii_upper
      (blank_dashboard \<lparr>charts_resolution := Some ''high'', start_time := Some 100\<rparr>))
      ''filters'' = Some (JObject [(''time'', JObject [(''start'', JInt 100000)])])"
  using payload_optional_keys [of Map.empty ascii_upper blank_dashboard]
    payload_optional_keys [of Map.empty ascii_upper
      "blank_dashboard \<lparr>charts_resolution := Some ''high'', start_time := Some 100\<rparr>"]
  by (simp add: getPayloadDashboard_def dashboard_all_filters_def getDashboardTime_def
        GetOk_string_def GetOk_int_def getDashboardFilters_def getDashboardVariables_def getDashboardCharts_def
        getDashboardColumns_def getDashboardGrids_def getDashboardEventOverlays_def
        filters_document_def blank_dashboard_def ascii_upper_def)

end
